theory Spec2Isabelle
  imports Main "HOL-Library.Multiset"
begin

section \<open>The rule model of the grammar builder\<close>

text \<open>
  The embedding follows the revision of \<^verbatim>\<open>Grammar\<close> that has the cardinality
  combinators, \<^verbatim>\<open>root()\<close> and the guarded \<^verbatim>\<open>build()\<close>.
  A JavaScript string is a list of characters, one per code unit; the functions below
  only compare and copy them. The enum \<^verbatim>\<open>ruleCardinality\<close> is a
  datatype; the optional symbol-keyed field \<^verbatim>\<open>[ruleCardinalityKey]\<close> is a
  \<open>ruleCardinality option\<close>, \<open>None\<close> standing for \<^verbatim>\<open>undefined\<close>.
  The tagged union \<^verbatim>\<open>rule\<close> is a datatype with one constructor per value of
  \<^verbatim>\<open>[ruleType]\<close>; a part (\<^verbatim>\<open>string | rule\<close>) is either a string or a rule.
\<close>

datatype ruleCardinality = zeroOrMore | oneOrMore | optional

datatype rule =
    Sequence "part list" "ruleCardinality option"
  | OneOf "part list" "ruleCardinality option"
  | Ref string "ruleCardinality option"
  | Range string "ruleCardinality option"
and part = Str string | Rule rule

text \<open>Every \<^verbatim>\<open>throw new Error(msg)\<close> of the source is the value \<open>Error msg\<close>.\<close>

datatype error = Error string

text \<open>\<^verbatim>\<open>rule[ruleCardinalityKey]\<close>, and the object spread
  \<^verbatim>\<open>{ ...rule, [ruleCardinalityKey]: c }\<close>.\<close>

fun ruleCardinalityKey :: "rule \<Rightarrow> ruleCardinality option" where
  "ruleCardinalityKey (Sequence ps c) = c"
| "ruleCardinalityKey (OneOf ps c) = c"
| "ruleCardinalityKey (Ref i c) = c"
| "ruleCardinalityKey (Range r c) = c"

fun with_cardinality :: "rule \<Rightarrow> ruleCardinality \<Rightarrow> rule" where
  "with_cardinality (Sequence ps c) d = Sequence ps (Some d)"
| "with_cardinality (OneOf ps c) d = OneOf ps (Some d)"
| "with_cardinality (Ref i c) d = Ref i (Some d)"
| "with_cardinality (Range r c) d = Range r (Some d)"

subsection \<open>String primitives\<close>

definition dquote :: string where
  "dquote = [CHR 0x22]"

definition startsWith :: "string \<Rightarrow> string \<Rightarrow> bool" where
  "startsWith s p = (take (length p) s = p)"

definition endsWith :: "string \<Rightarrow> string \<Rightarrow> bool" where
  "endsWith s p = (length p \<le> length s \<and> drop (length s - length p) s = p)"

text \<open>\<^verbatim>\<open>s.slice(-1)\<close> and \<^verbatim>\<open>s.slice(0, -1)\<close>: a negative index counts from the end
  and is clamped at 0.\<close>

definition slice_last :: "string \<Rightarrow> string" where
  "slice_last s = drop (length s - 1) s"

definition slice_init :: "string \<Rightarrow> string" where
  "slice_init s = take (length s - 1) s"

text \<open>\<^verbatim>\<open>Array.prototype.join\<close>.\<close>

fun join :: "string \<Rightarrow> string list \<Rightarrow> string" where
  "join sep [] = []"
| "join sep [x] = x"
| "join sep (x # y # ys) = x @ sep @ join sep (y # ys)"

subsection \<open>The builder\<close>

definition sequence :: "part list \<Rightarrow> rule" where
  "sequence parts = Sequence parts None"

definition oneOf :: "part list \<Rightarrow> rule" where
  "oneOf options = OneOf options None"

definition ref :: "string \<Rightarrow> rule" where
  "ref key = Ref key None"

definition range_error :: "string \<Rightarrow> error" where
  "range_error r =
     Error (''Range must be in the form of a range literal (e.g. [0-9]), received: '' @ r)"

text \<open>\<^verbatim>\<open>range\<close>: the guard, then the switch on the last character. A switch that
  matches no case yields \<^verbatim>\<open>undefined\<close>, whose spread adds nothing.\<close>

definition range_rule :: "string \<Rightarrow> error + rule" where
  "range_rule r =
     (if \<not> (startsWith r ''['' \<and>
             (endsWith r '']'' \<or> endsWith r '']?'' \<or> endsWith r '']*'' \<or> endsWith r '']+''))
      then Inl (range_error r)
      else let lastChar = slice_last r in
        if lastChar = ''?'' then Inr (Range (slice_init r) (Some optional))
        else if lastChar = ''*'' then Inr (Range (slice_init r) (Some zeroOrMore))
        else if lastChar = ''+'' then Inr (Range (slice_init r) (Some oneOrMore))
        else Inr (Range r None))"

text \<open>
  The cardinality combinators write to the console unless
  \<^verbatim>\<open>process.env.NODE_ENV\<close> is \<^verbatim>\<open>"production"\<close>. The environment variable is
  the parameter \<open>node_env\<close> (\<open>None\<close> when unset); the console is the list of the
  messages warned so far, passed in and returned. All three compare the existing
  cardinality with \<^verbatim>\<open>ruleCardinality.oneOrMore\<close>.
\<close>

definition warn_different :: "string \<Rightarrow> string" where
  "warn_different name =
     ''Rule had a different cardinality than '' @ dquote @ name @ dquote @
     '', which was overwritten''"

definition oneOrMore_rule :: "string option \<Rightarrow> rule \<Rightarrow> string list \<Rightarrow> rule \<times> string list" where
  "oneOrMore_rule node_env r console =
     (with_cardinality r oneOrMore,
      if ruleCardinalityKey r \<noteq> None \<and> ruleCardinalityKey r \<noteq> Some oneOrMore \<and>
         node_env \<noteq> Some ''production''
      then console @ [warn_different ''oneOrMore''] else console)"

definition zeroOrMore_rule :: "string option \<Rightarrow> rule \<Rightarrow> string list \<Rightarrow> rule \<times> string list" where
  "zeroOrMore_rule node_env r console =
     (with_cardinality r zeroOrMore,
      if ruleCardinalityKey r \<noteq> None \<and> ruleCardinalityKey r \<noteq> Some oneOrMore \<and>
         node_env \<noteq> Some ''production''
      then console @ [warn_different ''zeroOrMore''] else console)"

definition optional_rule :: "string option \<Rightarrow> rule \<Rightarrow> string list \<Rightarrow> rule \<times> string list" where
  "optional_rule node_env r console =
     (with_cardinality r optional,
      if ruleCardinalityKey r \<noteq> None \<and> ruleCardinalityKey r \<noteq> Some oneOrMore \<and>
         node_env \<noteq> Some ''production''
      then console @ [warn_different ''optional''] else console)"

subsection \<open>The serializer\<close>

text \<open>\<^verbatim>\<open>kebabCase\<close> comes from lodash and is a parameter of the serializer.\<close>

fun cardinalityChar :: "ruleCardinality option \<Rightarrow> string" where
  "cardinalityChar (Some zeroOrMore) = ''*''"
| "cardinalityChar (Some oneOrMore) = ''+''"
| "cardinalityChar (Some optional) = ''?''"
| "cardinalityChar None = ''''"

fun parser :: "(string \<Rightarrow> string) \<Rightarrow> part \<Rightarrow> string" where
  "parser kebabCase (Str s) = dquote @ s @ dquote"
| "parser kebabCase (Rule (Sequence parts c)) =
     (let resultStr = join '' '' (map (parser kebabCase) parts) in
      if cardinalityChar c \<noteq> '''' then ''('' @ resultStr @ '')'' @ cardinalityChar c
      else resultStr)"
| "parser kebabCase (Rule (OneOf parts c)) =
     ''('' @ join '' | '' (map (parser kebabCase) parts) @ '')'' @ cardinalityChar c"
| "parser kebabCase (Rule (Ref i c)) = kebabCase i @ cardinalityChar c"
| "parser kebabCase (Rule (Range r c)) = r @ cardinalityChar c"

subsection \<open>The registry\<close>

text \<open>
  \<^verbatim>\<open>this.rules\<close> is an ordinary object created by \<^verbatim>\<open>{}\<close>. It is modelled by the
  list of its own properties in the order of their creation. The state that the
  methods change is that list together with the console.
\<close>

record grammar =
  rules :: "(string \<times> rule) list"
  console :: "string list"

definition new_Grammar :: grammar where
  "new_Grammar = \<lparr>rules = [], console = []\<rparr>"

text \<open>\<^verbatim>\<open>Object.hasOwn(this.rules, key)\<close>.\<close>

definition hasOwn :: "(string \<times> rule) list \<Rightarrow> string \<Rightarrow> bool" where
  "hasOwn rs key = (key \<in> set (map fst rs))"

text \<open>
  \<^verbatim>\<open>this.rules[key] = v\<close>: an existing own property keeps its place and gets the
  new value, a new one is created last. The key \<^verbatim>\<open>__proto__\<close> is the accessor
  inherited from \<^verbatim>\<open>Object.prototype\<close>: assigning an object to it replaces the
  prototype and creates no own property.
\<close>

fun assign :: "string \<Rightarrow> rule \<Rightarrow> (string \<times> rule) list \<Rightarrow> (string \<times> rule) list" where
  "assign key v [] = [(key, v)]"
| "assign key v ((k, w) # rs) = (if k = key then (key, v) # rs else (k, w) # assign key v rs)"

definition set_prop :: "string \<Rightarrow> rule \<Rightarrow> (string \<times> rule) list \<Rightarrow> (string \<times> rule) list" where
  "set_prop key v rs = (if key = ''__proto__'' then rs else assign key v rs)"

text \<open>
  \<^verbatim>\<open>Object.entries\<close> lists the own properties in the order of
  \<^verbatim>\<open>OrdinaryOwnPropertyKeys\<close>: first the keys that are array indices (the canonical
  decimal numerals of the integers from 0 to \<open>2\<^sup>3\<^sup>2 - 2\<close>) in ascending numeric
  order, then the other string keys in the order of their creation.
\<close>

definition is_digit :: "char \<Rightarrow> bool" where
  "is_digit c = (48 \<le> (of_char c :: nat) \<and> (of_char c :: nat) \<le> 57)"

definition dec_val :: "string \<Rightarrow> int" where
  "dec_val s = foldl (\<lambda>n c. 10 * n + (of_char c - 48)) 0 s"

definition is_array_index :: "string \<Rightarrow> bool" where
  "is_array_index s =
     (s \<noteq> [] \<and> list_all is_digit s \<and> (if hd s = CHR ''0'' then s = ''0'' else True) \<and>
      dec_val s < 4294967295)"

definition entries :: "(string \<times> rule) list \<Rightarrow> (string \<times> rule) list" where
  "entries rs =
     sort_key (\<lambda>e. dec_val (fst e)) (filter (\<lambda>e. is_array_index (fst e)) rs) @
     filter (\<lambda>e. \<not> is_array_index (fst e)) rs"

text \<open>
  A callback \<^verbatim>\<open>(r) => ...\<close> handed to \<^verbatim>\<open>define\<close> or \<^verbatim>\<open>root\<close> is run on the
  builder: it may warn, and it either throws or returns a rule. It is modelled by its
  effect, a function from the console before the call to the outcome and the console
  after it. The builder gives it no access to \<^verbatim>\<open>this.rules\<close>. \<open>returns r\<close> is the
  callback that returns \<open>r\<close> and warns nothing.
\<close>

type_synonym callback = "string list \<Rightarrow> (error + rule) \<times> string list"

definition returns :: "rule \<Rightarrow> callback" where
  "returns r con = (Inr r, con)"

text \<open>
  The methods return \<^verbatim>\<open>this\<close> (\<open>Inr ()\<close>) or throw (\<open>Inl\<close>); the second component
  is the state after the call.
\<close>

definition "define" :: "string option \<Rightarrow> string \<Rightarrow> callback \<Rightarrow> grammar \<Rightarrow> (error + unit) \<times> grammar" where
  "define node_env key rule g =
     (if key = ''root'' then
        (Inl (Error ''Cannot define a root rule, use root() instead''), g)
      else if hasOwn (rules g) ''root'' then
        (Inl (Error ''Cannot extend a grammar with a root rule''), g)
      else
        let g1 = (if hasOwn (rules g) key \<and> node_env \<noteq> Some ''production''
                  then g\<lparr>console := console g @
                         [''Rule '' @ dquote @ key @ dquote @
                          '' was already defined, but is being overwritten'']\<rparr>
                  else g)
        in case rule (console g1) of
             (Inl e, con) \<Rightarrow> (Inl e, g1\<lparr>console := con\<rparr>)
           | (Inr r, con) \<Rightarrow> (Inr (), \<lparr>rules = set_prop key r (rules g1), console = con\<rparr>))"

definition root :: "callback \<Rightarrow> grammar \<Rightarrow> (error + unit) \<times> grammar" where
  "root rule g =
     (case rule (console g) of
        (Inl e, con) \<Rightarrow> (Inl e, g\<lparr>console := con\<rparr>)
      | (Inr r, con) \<Rightarrow> (Inr (), \<lparr>rules = set_prop ''root'' r (rules g), console = con\<rparr>))"

definition newline :: string where
  "newline = [CHR 0x0A]"

definition rule_line :: "(string \<Rightarrow> string) \<Rightarrow> string \<times> rule \<Rightarrow> string" where
  "rule_line kebabCase e = kebabCase (fst e) @ '' ::= '' @ parser kebabCase (Rule (snd e))"

definition build :: "(string \<Rightarrow> string) \<Rightarrow> grammar \<Rightarrow> (error + string) \<times> grammar" where
  "build kebabCase g =
     (if \<not> hasOwn (rules g) ''root'' then (Inl (Error ''No root rule defined''), g)
      else (Inr (join newline (map (rule_line kebabCase) (entries (rules g)))), g))"

subsection \<open>Flattening, for the statement of the properties\<close>

text \<open>
  These two functions are not in the source; they say what it means that nested
  sequences are flattened in the output. \<open>flattened_parts p\<close> is the list of
  parts that remains when every sequence without cardinality is replaced by its own
  parts, at any depth. \<open>no_empty_sequence p\<close> holds when none of the sequences so
  replaced is empty.
\<close>

fun flattened_parts :: "part \<Rightarrow> part list" where
  "flattened_parts (Rule (Sequence parts None)) = concat (map flattened_parts parts)"
| "flattened_parts p = [p]"

fun no_empty_sequence :: "part \<Rightarrow> bool" where
  "no_empty_sequence (Rule (Sequence parts None)) =
     (parts \<noteq> [] \<and> list_all no_empty_sequence parts)"
| "no_empty_sequence p = True"

section \<open>Auxiliary facts\<close>

lemma join_Cons: "xs \<noteq> [] \<Longrightarrow> join sep (x # xs) = x @ sep @ join sep xs"
  by (cases xs) simp_all

lemma join_append:
  "xs \<noteq> [] \<Longrightarrow> ys \<noteq> [] \<Longrightarrow> join sep (xs @ ys) = join sep xs @ sep @ join sep ys"
  by (induction sep xs rule: join.induct) (simp_all add: join_Cons)

text \<open>A joined non-empty list, put as one element into a list joined with the same
  separator, reads as if its elements had been spliced in.\<close>

lemma join_nested:
  assumes "ys \<noteq> []"
  shows "join sep (xs @ join sep ys # zs) = join sep (xs @ ys @ zs)"
proof -
  have inner: "join sep (join sep ys # zs) = join sep (ys @ zs)"
  proof (cases "zs = []")
    case True
    then show ?thesis by simp
  next
    case False
    with assms show ?thesis by (simp add: join_Cons join_append)
  qed
  show ?thesis
  proof (cases "xs = []")
    case True
    with inner show ?thesis by simp
  next
    case False
    with inner assms show ?thesis by (simp add: join_append)
  qed
qed

text \<open>\<open>join\<close> without recursion: the first element, then every further element
  after the separator.\<close>

lemma join_separated: "join sep (x # xs) = x @ concat (map (\<lambda>y. sep @ y) xs)"
  by (induction xs arbitrary: x) (simp_all add: join_Cons)

lemma join_concat:
  assumes "\<forall>xs\<in>set xss. xs \<noteq> []"
  shows "join sep (map (join sep) xss) = join sep (concat xss)"
  using assms
proof (induction xss)
  case Nil
  then show ?case by simp
next
  case (Cons xs xss)
  show ?case
  proof (cases "xss = []")
    case True
    then show ?thesis by simp
  next
    case False
    with Cons.prems have ne: "xs \<noteq> []" "concat xss \<noteq> []"
      by (auto simp: neq_Nil_conv)
    from False have "join sep (map (join sep) (xs # xss)) =
        join sep xs @ sep @ join sep (map (join sep) xss)"
      by (simp add: join_Cons)
    also have "\<dots> = join sep xs @ sep @ join sep (concat xss)"
      using Cons by simp
    also have "\<dots> = join sep (concat (xs # xss))"
      using ne by (simp add: join_append)
    finally show ?thesis .
  qed
qed

text \<open>Sequences without cardinality disappear from the rendering at every depth.\<close>

lemma parser_flattened:
  "no_empty_sequence p \<Longrightarrow>
   flattened_parts p \<noteq> [] \<and>
   parser k p = join '' '' (map (parser k) (flattened_parts p))"
proof (induction p rule: flattened_parts.induct)
  case (1 parts)
  then have ih: "\<forall>q\<in>set parts. flattened_parts q \<noteq> [] \<and>
      parser k q = join '' '' (map (parser k) (flattened_parts q))"
    by (simp add: list_all_iff)
  from 1 have ne: "parts \<noteq> []" by simp
  have a: "map (parser k) parts =
      map (join '' '') (map (\<lambda>q. map (parser k) (flattened_parts q)) parts)"
    using ih by simp
  have b: "\<forall>xs\<in>set (map (\<lambda>q. map (parser k) (flattened_parts q)) parts). xs \<noteq> []"
    using ih by simp
  have "join '' '' (map (parser k) parts) =
      join '' '' (concat (map (\<lambda>q. map (parser k) (flattened_parts q)) parts))"
    using join_concat [OF b, of "'' ''"] by (simp only: a)
  moreover have "concat (map flattened_parts parts) \<noteq> []"
    using ih ne by (cases parts) auto
  ultimately show ?case by (simp add: map_concat comp_def)
qed simp_all

lemma startsWith_bracket: "startsWith p ''['' = (\<exists>t. p = CHR ''['' # t)"
  by (cases p) (auto simp: startsWith_def)

lemma endsWith_iff: "endsWith p s = (\<exists>u. p = u @ s)"
proof
  assume "endsWith p s"
  then have "p = take (length p - length s) p @ s"
    by (metis append_take_drop_id endsWith_def)
  then show "\<exists>u. p = u @ s" ..
next
  assume "\<exists>u. p = u @ s"
  then show "endsWith p s" by (auto simp: endsWith_def)
qed

lemma slice_last_snoc: "slice_last (u @ [c]) = [c]"
  by (simp add: slice_last_def)

lemma slice_init_snoc: "slice_init (u @ [c]) = u"
  by (simp add: slice_init_def)

lemma range_rule_fails:
  "isl (range_rule p) =
     (\<not> (\<exists>t. p = CHR ''['' # t) \<or>
      \<not> (\<exists>u. p = u @ '']'' \<or> p = u @ '']?'' \<or> p = u @ '']*'' \<or> p = u @ '']+''))"
  unfolding range_rule_def startsWith_bracket endsWith_iff
  by (auto simp: Let_def)

lemma range_rule_error:
  "isl (range_rule p) \<Longrightarrow>
   range_rule p =
     Inl (Error (''Range must be in the form of a range literal (e.g. [0-9]), received: '' @ p))"
  unfolding range_rule_def range_error_def
  by (auto simp: Let_def split: if_splits)

lemma range_rule_plain:
  "range_rule (CHR ''['' # v @ '']'') = Inr (Range (CHR ''['' # v @ '']'') None)"
proof -
  have e: "endsWith (CHR ''['' # v @ '']'') '']''"
    unfolding endsWith_iff by (rule exI[of _ "CHR ''['' # v"]) simp
  have l: "slice_last (CHR ''['' # v @ '']'') = '']''"
    using slice_last_snoc[of "CHR ''['' # v" "CHR '']''"] by simp
  show ?thesis using e l by (simp add: range_rule_def startsWith_def)
qed

lemma range_rule_glyph:
  assumes "g = CHR ''?'' \<or> g = CHR ''*'' \<or> g = CHR ''+''"
  shows "range_rule (CHR ''['' # v @ '']'' @ [g]) =
     Inr (Range (CHR ''['' # v @ '']'')
        (Some (if g = CHR ''?'' then optional else if g = CHR ''*'' then zeroOrMore
               else oneOrMore)))"
proof -
  have e: "endsWith (CHR ''['' # v @ '']'' @ [g]) ('']'' @ [g])"
    unfolding endsWith_iff by (rule exI[of _ "CHR ''['' # v"]) simp
  have l: "slice_last (CHR ''['' # v @ '']'' @ [g]) = [g]"
    using slice_last_snoc[of "CHR ''['' # v @ '']''" g] by simp
  have i: "slice_init (CHR ''['' # v @ '']'' @ [g]) = CHR ''['' # v @ '']''"
    using slice_init_snoc[of "CHR ''['' # v @ '']''" g] by simp
  show ?thesis using assms e l i by (auto simp: range_rule_def startsWith_def)
qed

lemma not_index_root: "\<not> is_array_index ''root''"
  by (simp add: is_array_index_def is_digit_def)

lemma mset_entries: "mset (entries rs) = mset rs"
  by (simp add: entries_def)

lemma entries_no_index:
  assumes "\<forall>e\<in>set rs. \<not> is_array_index (fst e)"
  shows "entries rs = rs"
proof -
  from assms have "filter (\<lambda>e. is_array_index (fst e)) rs = []"
    by (simp add: filter_empty_conv)
  moreover from assms have "filter (\<lambda>e. \<not> is_array_index (fst e)) rs = rs"
    by (simp add: filter_id_conv)
  ultimately show ?thesis by (simp add: entries_def)
qed

lemma entries_order:
  "\<exists>ixs others. entries rs = ixs @ others \<and>
     (\<forall>e\<in>set ixs. is_array_index (fst e)) \<and>
     sorted (map (\<lambda>e. dec_val (fst e)) ixs) \<and>
     others = filter (\<lambda>e. \<not> is_array_index (fst e)) rs"
proof (intro exI conjI)
  show "entries rs =
      sort_key (\<lambda>e. dec_val (fst e)) (filter (\<lambda>e. is_array_index (fst e)) rs) @
      filter (\<lambda>e. \<not> is_array_index (fst e)) rs"
    by (simp add: entries_def)
qed simp_all

section \<open>The serializer on literals and on the node kinds\<close>

text \<open>
  C1. A string part is put between double quotes as it is: the serializer does not
  touch the characters of the literal, a double quote inside it included. The
  sequence whose only part is \<^verbatim>\<open>a"b\<close> is rendered as \<^verbatim>\<open>"a"b"\<close>, which is not
  the escaped form \<^verbatim>\<open>"a\"b"\<close>.
\<close>

theorem parser_literal_not_escaped:
  "parser kebabCase (Str s) = dquote @ s @ dquote \<and>
   parser kebabCase (Rule (sequence [Str s])) = dquote @ s @ dquote \<and>
   parser kebabCase (Rule (sequence [Str [CHR ''a'', CHR 0x22, CHR ''b'']])) =
     [CHR 0x22, CHR ''a'', CHR 0x22, CHR ''b'', CHR 0x22] \<and>
   parser kebabCase (Rule (sequence [Str [CHR ''a'', CHR 0x22, CHR ''b'']])) \<noteq>
     [CHR 0x22, CHR ''a'', CHR 0x5C, CHR 0x22, CHR ''b'', CHR 0x22]"
  by (simp add: sequence_def dquote_def)

text \<open>
  C2, as the claim states it, fails on a range: \<^verbatim>\<open>zeroOrMore(range("[0-9]"))\<close> is
  rendered \<^verbatim>\<open>[0-9]*\<close>, with no parentheses around the rendering of the range.
\<close>

theorem cardinality_parentheses_counterexample:
  "parser id (Rule (fst (zeroOrMore_rule None (Range ''[0-9]'' None) []))) = ''[0-9]*'' \<and>
   parser id (Rule (fst (zeroOrMore_rule None (Range ''[0-9]'' None) []))) \<noteq>
     ''('' @ parser id (Rule (Range ''[0-9]'' None)) @ '')'' @ ''*''"
  by (simp add: zeroOrMore_rule_def)

text \<open>
  C2, amended. For a node \<open>n\<close> without cardinality, each combinator returns a node
  whose rendering is: for a sequence, the rendering of \<open>n\<close> in one pair of parentheses
  followed by the glyph; for the other kinds, the rendering of \<open>n\<close> followed by the
  glyph, where the rendering of an alternation is parenthesized already and a
  reference and a range get no parentheses. No warning is written.
\<close>

theorem cardinality_rendering:
  assumes "ruleCardinalityKey n = None"
  shows "parser k (Rule (fst (zeroOrMore_rule env n con))) =
           (case n of Sequence ps c \<Rightarrow> ''('' @ parser k (Rule n) @ '')''
                    | _ \<Rightarrow> parser k (Rule n)) @ ''*'' \<and>
         parser k (Rule (fst (oneOrMore_rule env n con))) =
           (case n of Sequence ps c \<Rightarrow> ''('' @ parser k (Rule n) @ '')''
                    | _ \<Rightarrow> parser k (Rule n)) @ ''+'' \<and>
         parser k (Rule (fst (optional_rule env n con))) =
           (case n of Sequence ps c \<Rightarrow> ''('' @ parser k (Rule n) @ '')''
                    | _ \<Rightarrow> parser k (Rule n)) @ ''?'' \<and>
         (\<forall>ps. n = OneOf ps None \<longrightarrow>
            parser k (Rule n) = ''('' @ join '' | '' (map (parser k) ps) @ '')'') \<and>
         snd (zeroOrMore_rule env n con) = con \<and>
         snd (oneOrMore_rule env n con) = con \<and>
         snd (optional_rule env n con) = con"
  using assms
  by (cases n) (simp_all add: zeroOrMore_rule_def oneOrMore_rule_def optional_rule_def)

theorem cardinality_rendering_witness:
  "ruleCardinalityKey (sequence [Str ''a'', Str ''b'']) = None \<and>
   parser id (Rule (fst (zeroOrMore_rule None (sequence [Str ''a'', Str ''b'']) []))) =
     ''('' @ dquote @ ''a'' @ dquote @ '' '' @ dquote @ ''b'' @ dquote @ '')*'' \<and>
   ruleCardinalityKey (oneOf [Str ''a'', Str ''b'']) = None \<and>
   parser id (Rule (fst (optional_rule None (oneOf [Str ''a'', Str ''b'']) []))) =
     ''('' @ dquote @ ''a'' @ dquote @ '' | '' @ dquote @ ''b'' @ dquote @ '')?'' \<and>
   ruleCardinalityKey (ref ''testRef'') = None \<and>
   parser id (Rule (fst (oneOrMore_rule None (ref ''testRef'') []))) = ''testRef+''"
proof -
  have s: "ruleCardinalityKey (sequence [Str ''a'', Str ''b'']) = None"
    by (simp add: sequence_def)
  have o: "ruleCardinalityKey (oneOf [Str ''a'', Str ''b'']) = None"
    by (simp add: oneOf_def)
  have r: "ruleCardinalityKey (ref ''testRef'') = None"
    by (simp add: ref_def)
  show ?thesis
    using cardinality_rendering [OF s, of id None "[]"]
      cardinality_rendering [OF o, of id None "[]"]
      cardinality_rendering [OF r, of id None "[]"]
    by (simp add: sequence_def oneOf_def ref_def)
qed

text \<open>
  C8. An alternation is always rendered in parentheses: its first option, then every
  further option after the separator \<^verbatim>\<open> | \<close>, all inside one pair of
  parentheses, then the glyph of its cardinality if it has one; with no option it is
  \<^verbatim>\<open>()\<close>. An alternation that is an option of another alternation keeps its
  parentheses, so that an alternation whose only option is an alternation starts and
  ends with two. The instances are those of the tests of the repository:
  \<^verbatim>\<open>("a" | "b" | "c")\<close>, \<^verbatim>\<open>("a" | ("b" | "c") | "d")\<close>, \<^verbatim>\<open>(("a" | "b"))\<close> and
  \<^verbatim>\<open>("a" | "b")*\<close>.
\<close>

theorem oneOf_always_parenthesized:
  "parser k (Rule (OneOf ps c)) =
     ''('' @ join '' | '' (map (parser k) ps) @ '')'' @ cardinalityChar c \<and>
   parser k (Rule (OneOf [] c)) = ''()'' @ cardinalityChar c \<and>
   parser k (Rule (OneOf (p # qs) c)) =
     ''('' @ parser k p @ concat (map (\<lambda>q. '' | '' @ parser k q) qs) @ '')'' @
     cardinalityChar c \<and>
   parser k (Rule (oneOf (p # qs))) =
     ''('' @ parser k p @ concat (map (\<lambda>q. '' | '' @ parser k q) qs) @ '')'' \<and>
   parser k (Rule (oneOf [Rule (oneOf (p # qs))])) =
     ''(('' @ parser k p @ concat (map (\<lambda>q. '' | '' @ parser k q) qs) @ ''))'' \<and>
   parser k (Rule (oneOf (x # Rule (oneOf (p # qs)) # zs))) =
     ''('' @ parser k x @ '' | ('' @ parser k p @
       concat (map (\<lambda>q. '' | '' @ parser k q) qs) @ '')'' @
       concat (map (\<lambda>q. '' | '' @ parser k q) zs) @ '')'' \<and>
   parser k (Rule (oneOf [Str ''a'', Str ''b'', Str ''c''])) =
     [CHR ''('', CHR 0x22, CHR ''a'', CHR 0x22, CHR '' '', CHR ''|'', CHR '' '',
      CHR 0x22, CHR ''b'', CHR 0x22, CHR '' '', CHR ''|'', CHR '' '',
      CHR 0x22, CHR ''c'', CHR 0x22, CHR '')''] \<and>
   parser k (Rule (oneOf [Str ''a'', Rule (oneOf [Str ''b'', Str ''c'']), Str ''d''])) =
     [CHR ''('', CHR 0x22, CHR ''a'', CHR 0x22, CHR '' '', CHR ''|'', CHR '' '',
      CHR ''('', CHR 0x22, CHR ''b'', CHR 0x22, CHR '' '', CHR ''|'', CHR '' '',
      CHR 0x22, CHR ''c'', CHR 0x22, CHR '')'', CHR '' '', CHR ''|'', CHR '' '',
      CHR 0x22, CHR ''d'', CHR 0x22, CHR '')''] \<and>
   parser k (Rule (oneOf [Rule (oneOf [Str ''a'', Str ''b''])])) =
     [CHR ''('', CHR ''('', CHR 0x22, CHR ''a'', CHR 0x22, CHR '' '', CHR ''|'', CHR '' '',
      CHR 0x22, CHR ''b'', CHR 0x22, CHR '')'', CHR '')''] \<and>
   parser k (Rule (fst (zeroOrMore_rule None (oneOf [Str ''a'', Str ''b'']) []))) =
     [CHR ''('', CHR 0x22, CHR ''a'', CHR 0x22, CHR '' '', CHR ''|'', CHR '' '',
      CHR 0x22, CHR ''b'', CHR 0x22, CHR '')'', CHR ''*'']"
  by (simp add: oneOf_def join_separated dquote_def zeroOrMore_rule_def comp_def)

text \<open>
  C9. A sequence without cardinality is rendered as its parts joined by single
  spaces, with no parentheses of its own, also when one of its parts is again such a
  sequence. At any depth of nesting the rendering is that of the flattened list of
  parts, when no nested sequence is empty (an empty one leaves its empty rendering
  between two spaces).
\<close>

theorem sequence_never_parenthesized:
  "parser k (Rule (Sequence ps None)) = join '' '' (map (parser k) ps) \<and>
   parser k (Rule (sequence (xs @ Rule (sequence ys) # zs))) =
     join '' '' (map (parser k) xs @ join '' '' (map (parser k) ys) # map (parser k) zs) \<and>
   (ys \<noteq> [] \<longrightarrow>
      parser k (Rule (sequence (xs @ Rule (sequence ys) # zs))) =
        join '' '' (map (parser k) (xs @ ys @ zs))) \<and>
   (no_empty_sequence p \<longrightarrow> parser k p = join '' '' (map (parser k) (flattened_parts p)))"
  by (simp add: sequence_def join_nested parser_flattened)

theorem sequence_never_parenthesized_witness:
  "[Str ''b'', Str ''c''] \<noteq> [] \<and>
   parser id (Rule (sequence ([Str ''a''] @ Rule (sequence [Str ''b'', Str ''c'']) # [Str ''d'']))) =
     dquote @ ''a'' @ dquote @ '' '' @ dquote @ ''b'' @ dquote @ '' '' @
     dquote @ ''c'' @ dquote @ '' '' @ dquote @ ''d'' @ dquote \<and>
   no_empty_sequence
     (Rule (sequence [Str ''a'', Rule (sequence [Rule (sequence [Str ''b'']), Str ''c'']),
        Str ''d''])) \<and>
   flattened_parts
     (Rule (sequence [Str ''a'', Rule (sequence [Rule (sequence [Str ''b'']), Str ''c'']),
        Str ''d''])) = [Str ''a'', Str ''b'', Str ''c'', Str ''d''] \<and>
   parser id
     (Rule (sequence [Str ''a'', Rule (sequence [Rule (sequence [Str ''b'']), Str ''c'']),
        Str ''d''])) =
     dquote @ ''a'' @ dquote @ '' '' @ dquote @ ''b'' @ dquote @ '' '' @
     dquote @ ''c'' @ dquote @ '' '' @ dquote @ ''d'' @ dquote"
proof -
  have n: "no_empty_sequence
     (Rule (sequence [Str ''a'', Rule (sequence [Rule (sequence [Str ''b'']), Str ''c'']),
        Str ''d'']))"
    by (simp add: sequence_def)
  have f: "flattened_parts
     (Rule (sequence [Str ''a'', Rule (sequence [Rule (sequence [Str ''b'']), Str ''c'']),
        Str ''d''])) = [Str ''a'', Str ''b'', Str ''c'', Str ''d'']"
    by (simp add: sequence_def)
  show ?thesis
    using sequence_never_parenthesized
      [where k = id and xs = "[Str ''a'']" and ys = "[Str ''b'', Str ''c'']"
         and zs = "[Str ''d'']"
         and p = "Rule (sequence [Str ''a'',
           Rule (sequence [Rule (sequence [Str ''b'']), Str ''c'']), Str ''d''])"]
      n f
    by simp
qed

section \<open>The builder\<close>

text \<open>
  C3. \<^verbatim>\<open>range(pattern)\<close> throws exactly when the pattern does not begin with
  \<^verbatim>\<open>[\<close> or ends with none of \<^verbatim>\<open>]\<close>, \<^verbatim>\<open>]?\<close>, \<^verbatim>\<open>]*\<close>, \<^verbatim>\<open>]+\<close>, and the
  message of the error ends with the pattern as it was given. A pattern
  \<^verbatim>\<open>[\<close>...\<^verbatim>\<open>]\<close> is stored whole, without cardinality; a pattern
  \<^verbatim>\<open>[\<close>...\<^verbatim>\<open>]\<close> followed by a glyph is stored without the glyph, and the glyph
  becomes the cardinality of the node.
\<close>

theorem range_rule_spec:
  "isl (range_rule p) =
     (\<not> (\<exists>t. p = CHR ''['' # t) \<or>
      \<not> (\<exists>u. p = u @ '']'' \<or> p = u @ '']?'' \<or> p = u @ '']*'' \<or> p = u @ '']+'')) \<and>
   (isl (range_rule p) \<longrightarrow>
      range_rule p =
        Inl (Error (''Range must be in the form of a range literal (e.g. [0-9]), received: ''
                    @ p))) \<and>
   range_rule (CHR ''['' # v @ '']'') = Inr (Range (CHR ''['' # v @ '']'') None) \<and>
   range_rule (CHR ''['' # v @ '']?'') = Inr (Range (CHR ''['' # v @ '']'') (Some optional)) \<and>
   range_rule (CHR ''['' # v @ '']*'') = Inr (Range (CHR ''['' # v @ '']'') (Some zeroOrMore)) \<and>
   range_rule (CHR ''['' # v @ '']+'') = Inr (Range (CHR ''['' # v @ '']'') (Some oneOrMore))"
proof (intro conjI)
  show "isl (range_rule p) =
     (\<not> (\<exists>t. p = CHR ''['' # t) \<or>
      \<not> (\<exists>u. p = u @ '']'' \<or> p = u @ '']?'' \<or> p = u @ '']*'' \<or> p = u @ '']+''))"
    by (rule range_rule_fails)
  show "isl (range_rule p) \<longrightarrow>
      range_rule p =
        Inl (Error (''Range must be in the form of a range literal (e.g. [0-9]), received: ''
                    @ p))"
    by (simp add: range_rule_error)
  show "range_rule (CHR ''['' # v @ '']'') = Inr (Range (CHR ''['' # v @ '']'') None)"
    by (rule range_rule_plain)
  show "range_rule (CHR ''['' # v @ '']?'') = Inr (Range (CHR ''['' # v @ '']'') (Some optional))"
    using range_rule_glyph [of "CHR ''?''" v] by simp
  show "range_rule (CHR ''['' # v @ '']*'') = Inr (Range (CHR ''['' # v @ '']'') (Some zeroOrMore))"
    using range_rule_glyph [of "CHR ''*''" v] by simp
  show "range_rule (CHR ''['' # v @ '']+'') = Inr (Range (CHR ''['' # v @ '']'') (Some oneOrMore))"
    using range_rule_glyph [of "CHR ''+''" v] by simp
qed

theorem range_rule_spec_witness:
  "range_rule ''0-9'' =
     Inl (Error ''Range must be in the form of a range literal (e.g. [0-9]), received: 0-9'') \<and>
   range_rule ''[0-9]'' = Inr (Range ''[0-9]'' None) \<and>
   range_rule ''[0-9]?'' = Inr (Range ''[0-9]'' (Some optional)) \<and>
   range_rule ''[0-9]*'' = Inr (Range ''[0-9]'' (Some zeroOrMore)) \<and>
   range_rule ''[0-9]+'' = Inr (Range ''[0-9]'' (Some oneOrMore))"
  using range_rule_spec [of "''0-9''" "''0-9''"]
  by simp

text \<open>
  C4. The check of \<^verbatim>\<open>zeroOrMore\<close> and of \<^verbatim>\<open>optional\<close> compares the existing
  cardinality with \<^verbatim>\<open>oneOrMore\<close>: outside production, applying \<^verbatim>\<open>zeroOrMore\<close> to
  a node that is \<^verbatim>\<open>zeroOrMore\<close> already warns, and applying it to a node that is
  \<^verbatim>\<open>oneOrMore\<close> overwrites the cardinality without a warning; the same for
  \<^verbatim>\<open>optional\<close>.
\<close>

theorem cardinality_warning_compares_with_oneOrMore:
  "zeroOrMore_rule None (Sequence [Str ''a''] (Some zeroOrMore)) [] =
     (Sequence [Str ''a''] (Some zeroOrMore), [warn_different ''zeroOrMore'']) \<and>
   zeroOrMore_rule None (Sequence [Str ''a''] (Some oneOrMore)) [] =
     (Sequence [Str ''a''] (Some zeroOrMore), []) \<and>
   optional_rule None (Sequence [Str ''a''] (Some optional)) [] =
     (Sequence [Str ''a''] (Some optional), [warn_different ''optional'']) \<and>
   optional_rule None (Sequence [Str ''a''] (Some oneOrMore)) [] =
     (Sequence [Str ''a''] (Some optional), [])"
  by (simp add: zeroOrMore_rule_def optional_rule_def)

section \<open>The registry\<close>

text \<open>
  C5. \<^verbatim>\<open>define\<close> throws when the name is \<^verbatim>\<open>root\<close> and when the registry has a
  root already, before it runs the callback; the state after the failed call, the
  registry included, is the state before it.
\<close>

theorem define_fails_unchanged:
  assumes "key = ''root'' \<or> hasOwn (rules g) ''root''"
  shows "define node_env key rule g =
     (Inl (Error (if key = ''root'' then ''Cannot define a root rule, use root() instead''
                  else ''Cannot extend a grammar with a root rule'')), g)"
  using assms by (auto simp: define_def)

theorem define_fails_unchanged_witness:
  "define None ''root'' (returns (sequence [Str ''c'', Str ''d''])) new_Grammar =
     (Inl (Error ''Cannot define a root rule, use root() instead''), new_Grammar) \<and>
   hasOwn (rules \<lparr>rules = [(''root'', sequence [Str ''c'', Str ''d''])], console = []\<rparr>) ''root'' \<and>
   define None ''test'' (returns (sequence [Str ''c'', Str ''d'']))
       \<lparr>rules = [(''root'', sequence [Str ''c'', Str ''d''])], console = []\<rparr> =
     (Inl (Error ''Cannot extend a grammar with a root rule''),
      \<lparr>rules = [(''root'', sequence [Str ''c'', Str ''d''])], console = []\<rparr>)"
proof -
  have a: "''root'' = ''root'' \<or> hasOwn (rules new_Grammar) ''root''"
    by simp
  have h: "hasOwn (rules \<lparr>rules = [(''root'', sequence [Str ''c'', Str ''d''])], console = []\<rparr>)
      ''root''"
    by (simp add: hasOwn_def)
  then have b: "''test'' = ''root'' \<or>
      hasOwn (rules \<lparr>rules = [(''root'', sequence [Str ''c'', Str ''d''])], console = []\<rparr>) ''root''"
    by simp
  show ?thesis
    using define_fails_unchanged [OF a, of None "returns (sequence [Str ''c'', Str ''d''])"]
      define_fails_unchanged [OF b, of None "returns (sequence [Str ''c'', Str ''d''])"] h
    by simp
qed

text \<open>
  C6. \<^verbatim>\<open>build\<close> throws \<^verbatim>\<open>No root rule defined\<close> exactly when the registry has no
  own property \<^verbatim>\<open>root\<close>; it then returns no text, and the state is as before. With
  a root it returns a text.
\<close>

theorem build_no_root:
  "(fst (build k g) = Inl (Error ''No root rule defined'')) = (\<not> hasOwn (rules g) ''root'') \<and>
   (\<not> hasOwn (rules g) ''root'' \<longrightarrow> build k g = (Inl (Error ''No root rule defined''), g)) \<and>
   (hasOwn (rules g) ''root'' \<longrightarrow> (\<exists>t. fst (build k g) = Inr t))"
  by (simp add: build_def)

theorem build_no_root_witness:
  "\<not> hasOwn (rules \<lparr>rules = [(''test'', sequence [Str ''c'', Str ''d''])], console = []\<rparr>) ''root'' \<and>
   build id \<lparr>rules = [(''test'', sequence [Str ''c'', Str ''d''])], console = []\<rparr> =
     (Inl (Error ''No root rule defined''),
      \<lparr>rules = [(''test'', sequence [Str ''c'', Str ''d''])], console = []\<rparr>)"
proof -
  have h: "\<not> hasOwn (rules \<lparr>rules = [(''test'', sequence [Str ''c'', Str ''d''])], console = []\<rparr>)
      ''root''"
    by (simp add: hasOwn_def)
  show ?thesis
    using build_no_root
      [of id "\<lparr>rules = [(''test'', sequence [Str ''c'', Str ''d''])], console = []\<rparr>"] h
    by simp
qed

text \<open>
  C7, as the claim states it, fails where a rule name is an array index: after
  \<^verbatim>\<open>define("b", ...)\<close>, \<^verbatim>\<open>define("1", ...)\<close> and \<^verbatim>\<open>root(...)\<close> the properties were
  created in the order \<^verbatim>\<open>b\<close>, \<^verbatim>\<open>1\<close>, \<^verbatim>\<open>root\<close>, and the text begins with the line
  of \<^verbatim>\<open>1\<close>.
\<close>

theorem build_insertion_order_counterexample:
  "snd (root (returns (ref ''b''))
     (snd (define None ''1'' (returns (sequence [Str ''y'']))
       (snd (define None ''b'' (returns (sequence [Str ''x''])) new_Grammar))))) =
     \<lparr>rules = [(''b'', Sequence [Str ''x''] None), (''1'', Sequence [Str ''y''] None),
               (''root'', Ref ''b'' None)],
      console = []\<rparr> \<and>
   fst (build id
     \<lparr>rules = [(''b'', Sequence [Str ''x''] None), (''1'', Sequence [Str ''y''] None),
               (''root'', Ref ''b'' None)],
      console = []\<rparr>) =
     Inr (''1 ::= '' @ dquote @ ''y'' @ dquote @ newline @
          ''b ::= '' @ dquote @ ''x'' @ dquote @ newline @ ''root ::= b'') \<and>
   fst (build id
     \<lparr>rules = [(''b'', Sequence [Str ''x''] None), (''1'', Sequence [Str ''y''] None),
               (''root'', Ref ''b'' None)],
      console = []\<rparr>) \<noteq>
     Inr (join newline (map (rule_line id)
       [(''b'', Sequence [Str ''x''] None), (''1'', Sequence [Str ''y''] None),
        (''root'', Ref ''b'' None)]))"
  by (simp add: root_def define_def returns_def new_Grammar_def set_prop_def hasOwn_def
      sequence_def ref_def build_def entries_def is_array_index_def is_digit_def dec_val_def
      rule_line_def dquote_def newline_def)

text \<open>
  C7, amended. For a registry with a root, \<^verbatim>\<open>build\<close> returns one line per entry,
  the root included, each the normalized name, \<^verbatim>\<open> ::= \<close> and the rendering of the
  rule, the name normalized by the function that normalizes the target of a
  reference; the lines are joined by single newlines, with none after the last. The
  entries come in the order of the own properties of the object: the names that are
  array indices first, in ascending numeric order, then the other names in the order
  of their insertion. This is the order of insertion when no name is an array index.
\<close>

theorem build_lines:
  assumes "hasOwn (rules g) ''root''"
  shows "build k g =
           (Inr (join newline
              (map (\<lambda>e. k (fst e) @ '' ::= '' @ parser k (Rule (snd e))) (entries (rules g)))),
            g) \<and>
         parser k (Rule (Ref i c)) = k i @ cardinalityChar c \<and>
         mset (entries (rules g)) = mset (rules g) \<and>
         (\<exists>ixs others. entries (rules g) = ixs @ others \<and>
            (\<forall>e\<in>set ixs. is_array_index (fst e)) \<and>
            sorted (map (\<lambda>e. dec_val (fst e)) ixs) \<and>
            others = filter (\<lambda>e. \<not> is_array_index (fst e)) (rules g)) \<and>
         ((\<forall>e\<in>set (rules g). \<not> is_array_index (fst e)) \<longrightarrow> entries (rules g) = rules g)"
proof (intro conjI)
  have "rule_line k = (\<lambda>e. k (fst e) @ '' ::= '' @ parser k (Rule (snd e)))"
    by (rule ext) (simp add: rule_line_def)
  with assms show "build k g =
      (Inr (join newline
         (map (\<lambda>e. k (fst e) @ '' ::= '' @ parser k (Rule (snd e))) (entries (rules g)))),
       g)"
    by (simp add: build_def)
  show "parser k (Rule (Ref i c)) = k i @ cardinalityChar c"
    by simp
  show "mset (entries (rules g)) = mset (rules g)"
    by (rule mset_entries)
  show "\<exists>ixs others. entries (rules g) = ixs @ others \<and>
      (\<forall>e\<in>set ixs. is_array_index (fst e)) \<and>
      sorted (map (\<lambda>e. dec_val (fst e)) ixs) \<and>
      others = filter (\<lambda>e. \<not> is_array_index (fst e)) (rules g)"
    by (rule entries_order)
  show "(\<forall>e\<in>set (rules g). \<not> is_array_index (fst e)) \<longrightarrow> entries (rules g) = rules g"
    by (simp add: entries_no_index)
qed

theorem build_lines_witness:
  "hasOwn (rules \<lparr>rules = [(''digit'', Range ''[0-9]'' None), (''root'', Ref ''digit'' None)],
                  console = []\<rparr>) ''root'' \<and>
   \<not> is_array_index ''digit'' \<and> \<not> is_array_index ''root'' \<and>
   entries [(''digit'', Range ''[0-9]'' None), (''root'', Ref ''digit'' None)] =
     [(''digit'', Range ''[0-9]'' None), (''root'', Ref ''digit'' None)] \<and>
   fst (build id \<lparr>rules = [(''digit'', Range ''[0-9]'' None), (''root'', Ref ''digit'' None)],
                  console = []\<rparr>) =
     Inr (''digit ::= [0-9]'' @ newline @ ''root ::= digit'')"
proof -
  have h: "hasOwn (rules \<lparr>rules = [(''digit'', Range ''[0-9]'' None),
      (''root'', Ref ''digit'' None)], console = []\<rparr>) ''root''"
    by (simp add: hasOwn_def)
  have n: "\<not> is_array_index ''digit'' \<and> \<not> is_array_index ''root''"
    by (simp add: is_array_index_def is_digit_def)
  show ?thesis
    using build_lines [OF h, of id] h n
    by simp
qed

text \<open>
  C10. The sequence of no parts, without cardinality, is rendered as the empty
  string. The registry whose root is that sequence builds without error to the one
  line that is the normalized name of the root followed by \<^verbatim>\<open> ::= \<close>, that is
  \<^verbatim>\<open>root ::= \<close> for a normalization that leaves \<^verbatim>\<open>root\<close> as it is.
\<close>

theorem empty_sequence_root:
  "parser k (Rule (sequence [])) = '''' \<and>
   build k (snd (root (returns (sequence [])) new_Grammar)) =
     (Inr (k ''root'' @ '' ::= ''),
      \<lparr>rules = [(''root'', Sequence [] None)], console = []\<rparr>) \<and>
   (k ''root'' = ''root'' \<longrightarrow>
      fst (build k (snd (root (returns (sequence [])) new_Grammar))) = Inr ''root ::= '')"
  by (simp add: sequence_def build_def root_def returns_def new_Grammar_def set_prop_def
      hasOwn_def entries_def not_index_root rule_line_def)

theorem empty_sequence_root_witness:
  "id ''root'' = ''root'' \<and>
   fst (build id (snd (root (returns (sequence [])) new_Grammar))) = Inr ''root ::= ''"
  using empty_sequence_root [of id] by simp

end
